theory Spec2Isabelle
  imports Complex_Main "HOL-Library.Multiset"
begin

section \<open>The vector store of \<^verbatim>\<open>src/storage/simple_vector_db.py\<close>\<close>

text \<open>
  The class \<^verbatim>\<open>SimpleVectorDB\<close> keeps one SQLite table, \<^verbatim>\<open>vectors\<close>, and answers
  range queries, a summary and a brute-force similarity search over it.  The embedding
  below follows the Python method by method.  Conventions:

  \<^item> Python floats are real numbers; the one infinite value the code uses,
    \<^verbatim>\<open>float('inf')\<close> as a query bound, is a constructor of the type of query bounds.
    Rounding, overflow and NaN are outside the model.
  \<^item> Whatever passes through \<^verbatim>\<open>json.dumps\<close> and \<^verbatim>\<open>json.loads\<close> is a JSON value;
    a TEXT column written by \<^verbatim>\<open>json.dumps\<close> holds the value it encodes.
  \<^item> The table is the list of its rows in rowid order.  The column
    \<^verbatim>\<open>created_at\<close> is read by no query and is left out.
  \<^item> The connection sees its own writes, so \<^verbatim>\<open>commit\<close> is not a step of its own.
\<close>

subsection \<open>Data\<close>

datatype json =
    JNull
  | JBool bool
  | JNum real
  | JStr string
  | JArr "json list"
  | JObj "(string \<times> json) list"

text \<open>One element of the list handed to a \<^verbatim>\<open>store_*_vectors\<close> method: a dict with
  the keys \<^verbatim>\<open>'timestamp'\<close>, \<^verbatim>\<open>'dense_vector'\<close> and \<^verbatim>\<open>'features'\<close>.  The entries of
  the dense vector are arbitrary JSON values: nothing in the code looks at them
  before they are stored.\<close>

record feature_vector =
  v_timestamp :: real
  dense_vector :: "json list"
  features :: json

text \<open>A row of the table \<^verbatim>\<open>vectors\<close>.  The metadata column is nullable.\<close>

record row =
  col_id :: nat
  col_source_type :: string
  col_source_file :: string
  col_timestamp :: real
  col_vector_data :: "json list"
  col_metadata :: "json option"

text \<open>The database: the table and the AUTOINCREMENT counter (the largest rowid
  handed out so far).\<close>

record db =
  vectors :: "row list"
  seq :: nat

text \<open>The dict built by \<^verbatim>\<open>query_by_timerange\<close> for each row.\<close>

record vector_record =
  ident :: nat
  source_type :: string
  source_file :: string
  timestamp :: real
  vector :: "json list"
  metadata :: json

text \<open>The dict built by \<^verbatim>\<open>find_similar_moments\<close> for each candidate.\<close>

record moment =
  m_timestamp :: real
  similarity :: real
  m_metadata :: json

text \<open>The per-type entry and the whole result of \<^verbatim>\<open>get_conversation_summary\<close>.\<close>

record source_stats =
  row_count :: nat
  min_timestamp :: real
  max_timestamp :: real
  type_duration :: real

record summary =
  total_vectors :: nat
  duration :: real
  sources :: "string \<rightharpoonup> source_stats"

text \<open>A bound of a range query: a float that may be infinite.\<close>

datatype bound = NegInf | Fin real | PosInf

fun bound_le :: "bound \<Rightarrow> bound \<Rightarrow> bool" where
  "bound_le NegInf _ = True"
| "bound_le (Fin a) (Fin b) = (a \<le> b)"
| "bound_le (Fin _) PosInf = True"
| "bound_le (Fin _) NegInf = False"
| "bound_le PosInf PosInf = True"
| "bound_le PosInf _ = False"

datatype error = TypeError

subsection \<open>Creating the table and storing batches\<close>

text \<open>\<^verbatim>\<open>__init__\<close> on a fresh path: \<^verbatim>\<open>create_tables\<close> leaves an empty table.\<close>

definition create_tables :: db where
  "create_tables = \<lparr>vectors = [], seq = 0\<rparr>"

text \<open>The INSERT statement shared by the three store methods.  The id is the
  AUTOINCREMENT value; \<^verbatim>\<open>json.dumps\<close> of the features is never NULL nor empty.\<close>

definition insert_row :: "string \<Rightarrow> string \<Rightarrow> feature_vector \<Rightarrow> db \<Rightarrow> db" where
  "insert_row tag file v d =
     \<lparr>vectors = vectors d @
        [\<lparr>col_id = Suc (seq d), col_source_type = tag, col_source_file = file,
          col_timestamp = v_timestamp v, col_vector_data = dense_vector v,
          col_metadata = Some (features v)\<rparr>],
      seq = Suc (seq d)\<rparr>"

definition store_audio_vectors :: "db \<Rightarrow> feature_vector list \<Rightarrow> string \<Rightarrow> db" where
  "store_audio_vectors d vs file = fold (insert_row ''audio'' file) vs d"

definition store_visual_vectors :: "db \<Rightarrow> feature_vector list \<Rightarrow> string \<Rightarrow> db" where
  "store_visual_vectors d vs file = fold (insert_row ''visual'' file) vs d"

definition store_semantic_vectors :: "db \<Rightarrow> feature_vector list \<Rightarrow> string \<Rightarrow> db" where
  "store_semantic_vectors d vs file = fold (insert_row ''semantic'' file) vs d"

subsection \<open>Range queries\<close>

text \<open>The WHERE clause on the timestamp, and the conversion of a fetched row:
  \<^verbatim>\<open>json.loads(row[5]) if row[5] else {}\<close>.\<close>

definition in_range :: "bound \<Rightarrow> bound \<Rightarrow> row \<Rightarrow> bool" where
  "in_range start_time end_time r \<longleftrightarrow>
     bound_le start_time (Fin (col_timestamp r)) \<and> bound_le (Fin (col_timestamp r)) end_time"

definition to_record :: "row \<Rightarrow> vector_record" where
  "to_record r =
     \<lparr>ident = col_id r, source_type = col_source_type r, source_file = col_source_file r,
      timestamp = col_timestamp r, vector = col_vector_data r,
      metadata = (case col_metadata r of Some j \<Rightarrow> j | None \<Rightarrow> JObj [])\<rparr>"

text \<open>\<^verbatim>\<open>if source_type:\<close> takes the filtered SELECT only for a non-empty string;
  \<^verbatim>\<open>None\<close> and \<^verbatim>\<open>""\<close> both take the unfiltered one.  ORDER BY timestamp is the
  stable sort of the rows visited in rowid order.\<close>

definition query_by_timerange ::
  "db \<Rightarrow> bound \<Rightarrow> bound \<Rightarrow> string option \<Rightarrow> vector_record list" where
  "query_by_timerange d start_time end_time st =
     map to_record
       (case st of
          None \<Rightarrow> sort_key col_timestamp (filter (in_range start_time end_time) (vectors d))
        | Some s \<Rightarrow>
            if s \<noteq> [] then
              sort_key col_timestamp
                (filter (\<lambda>r. in_range start_time end_time r \<and> col_source_type r = s) (vectors d))
            else sort_key col_timestamp (filter (in_range start_time end_time) (vectors d)))"

subsection \<open>Summary\<close>

text \<open>The GROUP BY query: one tuple per distinct source type with COUNT, MIN and MAX
  of its timestamps.\<close>

definition group_by_source_type :: "db \<Rightarrow> (string \<times> nat \<times> real \<times> real) list" where
  "group_by_source_type d =
     map (\<lambda>s. let ts = map col_timestamp (filter (\<lambda>r. col_source_type r = s) (vectors d))
              in (s, length ts, Min (set ts), Max (set ts)))
         (remdups (map col_source_type (vectors d)))"

text \<open>The body of the loop over the fetched groups.  A Python float is falsy exactly
  when it is zero, so \<^verbatim>\<open>max_time and min_time\<close> holds when neither is zero.\<close>

definition add_group :: "string \<times> nat \<times> real \<times> real \<Rightarrow> summary \<Rightarrow> summary" where
  "add_group g s =
     (case g of (tag, n, min_time, max_time) \<Rightarrow>
        \<lparr>total_vectors = total_vectors s + n,
         duration = max (duration s) (if max_time \<noteq> 0 then max_time else 0),
         sources = (sources s)(tag \<mapsto>
           \<lparr>row_count = n, min_timestamp = min_time, max_timestamp = max_time,
            type_duration = (if max_time \<noteq> 0 \<and> min_time \<noteq> 0 then max_time - min_time else 0)\<rparr>)\<rparr>)"

definition get_conversation_summary :: "db \<Rightarrow> summary" where
  "get_conversation_summary d =
     fold add_group (group_by_source_type d)
       \<lparr>total_vectors = 0, duration = 0, sources = Map.empty\<rparr>"

subsection \<open>Similarity\<close>

text \<open>What Python's arithmetic accepts as a number among JSON values: numbers, and
  the booleans as 0 and 1.\<close>

fun as_number :: "json \<Rightarrow> real option" where
  "as_number (JNum x) = Some x"
| "as_number (JBool b) = Some (if b then 1 else 0)"
| "as_number _ = None"

fun numbers :: "json list \<Rightarrow> real list option" where
  "numbers [] = Some []"
| "numbers (j # js) =
     (case as_number j of
        None \<Rightarrow> None
      | Some x \<Rightarrow> (case numbers js of None \<Rightarrow> None | Some xs \<Rightarrow> Some (x # xs)))"

text \<open>\<^verbatim>\<open>cosine_similarity\<close>: the length test comes first and needs no arithmetic; after
  it every entry is multiplied and summed, which raises \<^verbatim>\<open>TypeError\<close> as soon as one
  of them is not a number.\<close>

definition cosine_similarity :: "json list \<Rightarrow> json list \<Rightarrow> error + real" where
  "cosine_similarity vec1 vec2 =
     (if length vec1 \<noteq> length vec2 then Inr 0
      else case (numbers vec1, numbers vec2) of
        (Some a, Some b) \<Rightarrow>
          (let dot_product = sum_list (map (\<lambda>(x, y). x * y) (zip a b));
               magnitude1 = sqrt (sum_list (map (\<lambda>x. x * x) a));
               magnitude2 = sqrt (sum_list (map (\<lambda>y. y * y) b))
           in if magnitude1 = 0 \<or> magnitude2 = 0 then Inr 0
              else Inr (dot_product / (magnitude1 * magnitude2)))
      | _ \<Rightarrow> Inl TypeError)"

text \<open>The loop of \<^verbatim>\<open>find_similar_moments\<close> over \<^verbatim>\<open>all_vectors\<close>: a candidate closer
  than \<^verbatim>\<open>window_size\<close> is skipped, any other is compared and appended.\<close>

fun similarities ::
  "json list \<Rightarrow> real \<Rightarrow> real \<Rightarrow> vector_record list \<Rightarrow> error + moment list" where
  "similarities target_vector target_timestamp window_size [] = Inr []"
| "similarities target_vector target_timestamp window_size (vector_data # rest) =
     (if \<bar>timestamp vector_data - target_timestamp\<bar> < window_size
      then similarities target_vector target_timestamp window_size rest
      else case cosine_similarity target_vector (vector vector_data) of
        Inl e \<Rightarrow> Inl e
      | Inr s \<Rightarrow>
          (case similarities target_vector target_timestamp window_size rest of
             Inl e \<Rightarrow> Inl e
           | Inr ms \<Rightarrow>
               Inr (\<lparr>m_timestamp = timestamp vector_data, similarity = s,
                     m_metadata = metadata vector_data\<rparr> # ms)))"

text \<open>\<^verbatim>\<open>list.sort(key=..., reverse=True)\<close> is stable: descending keys, equal keys in
  their original order.\<close>

definition sort_by_similarity :: "moment list \<Rightarrow> moment list" where
  "sort_by_similarity ms = sort_key (\<lambda>m. - similarity m) ms"

definition find_similar_moments ::
  "db \<Rightarrow> real \<Rightarrow> real \<Rightarrow> string option \<Rightarrow> error + moment list" where
  "find_similar_moments d target_timestamp window_size st =
     (case query_by_timerange d (Fin (target_timestamp - 5)) (Fin (target_timestamp + 5)) st of
        [] \<Rightarrow> Inr []
      | target # _ \<Rightarrow>
          (case similarities (vector target) target_timestamp window_size
                  (query_by_timerange d (Fin 0) PosInf st) of
             Inl e \<Rightarrow> Inl e
           | Inr ms \<Rightarrow> Inr (take 10 (sort_by_similarity ms))))"

section \<open>Vocabulary of the properties\<close>

text \<open>The rows that a batch adds to a table whose counter stands at \<open>n\<close>: one per
  submitted dict, in order, numbered from \<open>n + 1\<close>.\<close>

fun new_rows :: "string \<Rightarrow> string \<Rightarrow> nat \<Rightarrow> feature_vector list \<Rightarrow> row list" where
  "new_rows tag file n [] = []"
| "new_rows tag file n (v # vs) =
     \<lparr>col_id = Suc n, col_source_type = tag, col_source_file = file,
      col_timestamp = v_timestamp v, col_vector_data = dense_vector v,
      col_metadata = Some (features v)\<rparr> # new_rows tag file (Suc n) vs"

text \<open>The invariant of every table the store methods can build: ids ascend in
  insertion order and none is above the counter.\<close>

definition wf_db :: "db \<Rightarrow> bool" where
  "wf_db d \<longleftrightarrow>
     sorted_wrt (<) (map col_id (vectors d)) \<and> (\<forall>r \<in> set (vectors d). col_id r \<le> seq d)"

text \<open>The rows a \<^verbatim>\<open>source_type\<close> argument lets through: all of them when it is
  absent or empty, those of the named type otherwise.\<close>

definition selects :: "string option \<Rightarrow> row \<Rightarrow> bool" where
  "selects st r \<longleftrightarrow> st = None \<or> st = Some [] \<or> st = Some (col_source_type r)"




text \<open>Ascending timestamp, and ascending id among equal timestamps.\<close>

definition by_timestamp_then_id :: "vector_record \<Rightarrow> vector_record \<Rightarrow> bool" where
  "by_timestamp_then_id a b \<longleftrightarrow>
     timestamp a < timestamp b \<or> (timestamp a = timestamp b \<and> ident a < ident b)"

definition row_order :: "row \<Rightarrow> row \<Rightarrow> bool" where
  "row_order a b \<longleftrightarrow>
     col_timestamp a < col_timestamp b \<or>
     (col_timestamp a = col_timestamp b \<and> col_id a < col_id b)"


definition sumsq :: "real list \<Rightarrow> real" where
  "sumsq a = sum_list (map (\<lambda>x. x * x) a)"

definition magnitude :: "real list \<Rightarrow> real" where
  "magnitude a = sqrt (sumsq a)"

text \<open>A moment is the score of a record against a reference vector; a ranking of
  candidates is a rearrangement in descending similarity that keeps candidates of
  equal similarity in their order.\<close>

definition scored :: "json list \<Rightarrow> vector_record \<Rightarrow> moment \<Rightarrow> bool" where
  "scored ref r m \<longleftrightarrow>
     m_timestamp m = timestamp r \<and> m_metadata m = metadata r \<and>
     cosine_similarity ref (vector r) = Inr (similarity m)"

definition stable_descending :: "moment list \<Rightarrow> moment list \<Rightarrow> bool" where
  "stable_descending cands full \<longleftrightarrow>
     mset full = mset cands \<and>
     sorted_wrt (\<lambda>a b. similarity b \<le> similarity a) full \<and>
     (\<forall>s. filter (\<lambda>m. similarity m = s) full = filter (\<lambda>m. similarity m = s) cands)"

definition numeric_store :: "db \<Rightarrow> bool" where
  "numeric_store d \<longleftrightarrow> (\<forall>r \<in> set (vectors d). numbers (col_vector_data r) \<noteq> None)"

definition timestamps_of :: "db \<Rightarrow> string \<Rightarrow> real list" where
  "timestamps_of d tag = map col_timestamp (filter (\<lambda>r. col_source_type r = tag) (vectors d))"

subsection \<open>Example stores\<close>

text \<open>Three audio records at 10, 20 and 80 seconds with the vectors (1,0), (1,0)
  and (0,1).\<close>

definition scenario_batch :: "feature_vector list" where
  "scenario_batch =
     [\<lparr>v_timestamp = 10, dense_vector = [JNum 1, JNum 0], features = JStr ''a''\<rparr>,
      \<lparr>v_timestamp = 20, dense_vector = [JNum 1, JNum 0], features = JStr ''b''\<rparr>,
      \<lparr>v_timestamp = 80, dense_vector = [JNum 0, JNum 1], features = JStr ''c''\<rparr>]"

definition scenario_db :: db where
  "scenario_db = store_audio_vectors create_tables scenario_batch ''conversation_audio.wav''"

text \<open>A batch out of timestamp order, and a store where an audio and a visual
  record share a timestamp.\<close>

definition unordered_batch :: "feature_vector list" where
  "unordered_batch =
     [\<lparr>v_timestamp = 20, dense_vector = [JNum 3], features = JObj [(''k'', JBool True)]\<rparr>,
      \<lparr>v_timestamp = 10, dense_vector = [JNum 4], features = JNull\<rparr>]"

definition tie_db :: db where
  "tie_db = store_visual_vectors
     (store_audio_vectors create_tables unordered_batch ''conversation_audio.wav'')
     [\<lparr>v_timestamp = 10, dense_vector = [JNum 5], features = JNull\<rparr>] ''google_meet.mp4''"

text \<open>An audio track whose first window starts at second 0, as the extractor's
  windows do.\<close>

definition zero_start_db :: db where
  "zero_start_db = store_audio_vectors create_tables
     [\<lparr>v_timestamp = 0, dense_vector = [JNum 1, JNum 0], features = JNull\<rparr>,
      \<lparr>v_timestamp = 10, dense_vector = [JNum 0, JNum 1], features = JNull\<rparr>]
     ''conversation_audio.wav''"


section \<open>Storing\<close>

lemma fold_insert_row:
  "fold (insert_row tag file) vs d =
     \<lparr>vectors = vectors d @ new_rows tag file (seq d) vs, seq = seq d + length vs\<rparr>"
proof (induction vs arbitrary: d)
  case Nil
  show ?case by simp
next
  case (Cons v vs)
  show ?case by (simp add: Cons.IH) (simp add: insert_row_def)
qed

lemma length_new_rows [simp]: "length (new_rows tag file n vs) = length vs"
  by (induction vs arbitrary: n) auto

lemma new_rows_ids: "map col_id (new_rows tag file n vs) = [Suc n ..< Suc n + length vs]"
proof (induction vs arbitrary: n)
  case Nil
  show ?case by simp
next
  case (Cons v vs)
  have "[Suc n ..< Suc n + length (v # vs)] = Suc n # [Suc (Suc n) ..< Suc (Suc n) + length vs]"
    by (simp add: upt_rec)
  then show ?case by (simp add: Cons.IH)
qed



text \<open>The invariant holds of the empty table and every batch keeps it.\<close>

lemma wf_create_tables: "wf_db create_tables"
  by (simp add: wf_db_def create_tables_def)

lemma wf_fold_insert_row:
  assumes "wf_db d"
  shows "wf_db (fold (insert_row tag file) vs d)"
proof -
  have ids: "map col_id (new_rows tag file (seq d) vs) = [Suc (seq d) ..< Suc (seq d) + length vs]"
    by (rule new_rows_ids)
  have "sorted_wrt (<) (map col_id (vectors d) @ [Suc (seq d) ..< Suc (seq d) + length vs])"
    using assms by (auto simp: wf_db_def sorted_wrt_append)
  moreover have "\<forall>r \<in> set (new_rows tag file (seq d) vs). col_id r \<le> seq d + length vs"
  proof
    fix r assume "r \<in> set (new_rows tag file (seq d) vs)"
    then have "col_id r \<in> set (map col_id (new_rows tag file (seq d) vs))" by simp
    then show "col_id r \<le> seq d + length vs" unfolding ids by auto
  qed
  ultimately show ?thesis
    using assms by (auto simp: wf_db_def fold_insert_row ids)
qed

lemma wf_store:
  assumes "wf_db d"
  shows "wf_db (store_audio_vectors d vs file)"
    and "wf_db (store_visual_vectors d vs file)"
    and "wf_db (store_semantic_vectors d vs file)"
  unfolding store_audio_vectors_def store_visual_vectors_def store_semantic_vectors_def
  by (rule wf_fold_insert_row [OF assms])+



section \<open>Range queries\<close>

lemma set_query:
  "set (query_by_timerange d start_time end_time st) =
     to_record ` {r \<in> set (vectors d). in_range start_time end_time r \<and> selects st r}"
  by (auto simp: query_by_timerange_def selects_def split: option.splits)











lemma insort_row_order:
  assumes "sorted_wrt row_order rs" and "\<forall>r \<in> set rs. col_id x < col_id r"
  shows "sorted_wrt row_order (insort_key col_timestamp x rs)"
  using assms
proof (induction rs)
  case Nil
  show ?case by simp
next
  case (Cons r rs)
  show ?case
  proof (cases "col_timestamp x \<le> col_timestamp r")
    case True
    have "row_order x y" if "y \<in> set (r # rs)" for y
    proof -
      have "col_timestamp r \<le> col_timestamp y"
        using that Cons.prems(1) by (auto simp: row_order_def)
      moreover have "col_id x < col_id y" using that Cons.prems(2) by blast
      ultimately show ?thesis using True by (auto simp: row_order_def)
    qed
    then show ?thesis using True Cons.prems(1) by simp
  next
    case False
    then have "row_order r x" by (simp add: row_order_def)
    moreover have "sorted_wrt row_order (insort_key col_timestamp x rs)"
      using Cons by simp
    ultimately show ?thesis using False Cons.prems(1) by (auto simp: set_insort_key)
  qed
qed

lemma sort_row_order:
  "sorted_wrt (\<lambda>a b. col_id a < col_id b) rs \<Longrightarrow> sorted_wrt row_order (sort_key col_timestamp rs)"
proof (induction rs)
  case Nil
  show ?case by simp
next
  case (Cons r rs)
  then show ?case by (simp add: insort_row_order)
qed

lemma sorted_wrt_to_record:
  "sorted_wrt by_timestamp_then_id (map to_record rs) = sorted_wrt row_order rs"
  by (simp add: sorted_wrt_map by_timestamp_then_id_def row_order_def [abs_def] to_record_def)

text \<open>
  C7.  On every store with the invariant above, the records a range query returns
  ascend in timestamp, and records of equal timestamp ascend in id, that is, come in
  their insertion order.
\<close>

theorem query_ties_by_id:
  assumes "wf_db d"
  shows "sorted_wrt by_timestamp_then_id (query_by_timerange d start_time end_time st)"
proof -
  have ids: "sorted_wrt (\<lambda>a b. col_id a < col_id b) (vectors d)"
    using assms by (simp add: wf_db_def sorted_wrt_map)
  have "sorted_wrt row_order (sort_key col_timestamp (filter P (vectors d)))" for P
    by (rule sort_row_order) (rule sorted_wrt_filter [OF ids])
  then show ?thesis
    by (simp add: query_by_timerange_def sorted_wrt_to_record split: option.splits)
qed

text \<open>The audio record 2 and the visual record 3 share the timestamp 10 and come
  in this order, before record 1 at 20.\<close>

theorem query_ties_by_id_witness:
  "wf_db tie_db \<and>
   map (\<lambda>r. (timestamp r, ident r)) (query_by_timerange tie_db (Fin 0) PosInf None) =
     [(10, 2), (10, 3), (20, 1)] \<and>
   sorted_wrt by_timestamp_then_id (query_by_timerange tie_db (Fin 0) PosInf None)"
proof -
  have wf: "wf_db tie_db"
    unfolding tie_db_def by (intro wf_store wf_create_tables)
  have "map (\<lambda>r. (timestamp r, ident r)) (query_by_timerange tie_db (Fin 0) PosInf None) =
     [(10, 2), (10, 3), (20, 1)]"
    by (simp add: tie_db_def unordered_batch_def store_audio_vectors_def store_visual_vectors_def
        insert_row_def create_tables_def query_by_timerange_def in_range_def to_record_def)
  then show ?thesis
    using wf query_ties_by_id [OF wf, of "Fin 0" PosInf None] by blast
qed

section \<open>Summary\<close>

lemma sources_fold_other:
  "tag \<notin> fst ` set gs \<Longrightarrow> sources (fold add_group gs s) tag = sources s tag"
  by (induction gs arbitrary: s) (auto simp: add_group_def)

lemma sources_add_group:
  "sources (add_group (tag, n, lo, hi) s) tag =
     Some \<lparr>row_count = n, min_timestamp = lo, max_timestamp = hi,
           type_duration = (if hi \<noteq> 0 \<and> lo \<noteq> 0 then hi - lo else 0)\<rparr>"
  by (simp add: add_group_def)

lemma sources_fold_entry:
  assumes "distinct (map fst gs)" and "(tag, n, lo, hi) \<in> set gs"
  shows "sources (fold add_group gs s) tag =
           Some \<lparr>row_count = n, min_timestamp = lo, max_timestamp = hi,
                 type_duration = (if hi \<noteq> 0 \<and> lo \<noteq> 0 then hi - lo else 0)\<rparr>"
  using assms
proof (induction gs arbitrary: s)
  case Nil
  then show ?case by simp
next
  case (Cons g gs)
  show ?case
  proof (cases "g = (tag, n, lo, hi)")
    case True
    then have "tag \<notin> fst ` set gs" using Cons.prems(1) by auto
    then have "sources (fold add_group gs (add_group g s)) tag = sources (add_group g s) tag"
      by (rule sources_fold_other)
    then show ?thesis by (simp only: fold_simps True sources_add_group)
  next
    case False
    then show ?thesis using Cons by auto
  qed
qed

text \<open>What the summary holds for a source type that is present: the count, the
  least and the greatest timestamp of its rows, and a duration that is their
  difference only when neither of the two is zero.\<close>

lemma summary_entry:
  assumes "tag \<in> col_source_type ` set (vectors d)"
  shows "sources (get_conversation_summary d) tag =
           Some \<lparr>row_count = length (timestamps_of d tag),
                 min_timestamp = Min (set (timestamps_of d tag)),
                 max_timestamp = Max (set (timestamps_of d tag)),
                 type_duration =
                   (if Max (set (timestamps_of d tag)) \<noteq> 0 \<and> Min (set (timestamps_of d tag)) \<noteq> 0
                    then Max (set (timestamps_of d tag)) - Min (set (timestamps_of d tag)) else 0)\<rparr>"
proof -
  have keys: "map fst (group_by_source_type d) = remdups (map col_source_type (vectors d))"
    by (simp add: group_by_source_type_def comp_def Let_def)
  have "(tag, length (timestamps_of d tag), Min (set (timestamps_of d tag)),
          Max (set (timestamps_of d tag))) \<in> set (group_by_source_type d)"
    using assms by (auto simp: group_by_source_type_def timestamps_of_def Let_def)
  moreover have "distinct (map fst (group_by_source_type d))" by (simp add: keys)
  ultimately show ?thesis
    unfolding get_conversation_summary_def by (rule sources_fold_entry [rotated])
qed

lemma summary_empty:
  "total_vectors (get_conversation_summary create_tables) = 0 \<and>
   duration (get_conversation_summary create_tables) = 0 \<and>
   sources (get_conversation_summary create_tables) = Map.empty"
  by (simp add: get_conversation_summary_def group_by_source_type_def create_tables_def)

lemma total_fold:
  "total_vectors (fold add_group gs s) = total_vectors s + sum_list (map (\<lambda>g. fst (snd g)) gs)"
  by (induction gs arbitrary: s) (auto simp: add_group_def split: prod.splits)

lemma duration_fold:
  "duration (fold add_group gs s) = fold max (map (\<lambda>g. snd (snd (snd g))) gs) (duration s)"
  by (induction gs arbitrary: s) (auto simp: add_group_def max.commute split: prod.splits)

lemma fold_max_Max: "fold max xs (m :: real) = Max (insert m (set xs))"
proof (induction xs arbitrary: m)
  case Nil
  show ?case by simp
next
  case (Cons x xs)
  have "Max (insert (max x m) (set xs)) = Max (insert m (insert x (set xs)))"
    by (cases "set xs = {}") (simp_all add: max.commute max.left_commute)
  then show ?case by (simp add: Cons.IH)
qed

lemma group_counts:
  "sum_list (map (\<lambda>s. length (filter (\<lambda>r. f r = s) xs)) (remdups (map f xs))) = length xs"
proof -
  have count: "count (mset (map f xs)) s = length (filter (\<lambda>r. f r = s) xs)" for s
    by (induction xs) auto
  have "length xs = size (mset (map f xs))" by simp
  also have "\<dots> = (\<Sum>s \<in> set (map f xs). count (mset (map f xs)) s)"
    by (simp add: size_multiset_overloaded_eq)
  also have "\<dots> = (\<Sum>s \<in> set (remdups (map f xs)). length (filter (\<lambda>r. f r = s) xs))"
    by (simp only: count set_remdups)
  also have "\<dots> = sum_list (map (\<lambda>s. length (filter (\<lambda>r. f r = s) xs)) (remdups (map f xs)))"
    by (rule sum_list_distinct_conv_sum_set [symmetric]) simp
  finally show ?thesis by simp
qed

text \<open>The overall figures: the total is the number of rows, and the overall
  duration is the greatest timestamp of the table, or 0 if that is greater.\<close>

lemma summary_total: "total_vectors (get_conversation_summary d) = length (vectors d)"
proof -
  have "map (\<lambda>g. fst (snd g)) (group_by_source_type d) =
        map (\<lambda>s. length (filter (\<lambda>r. col_source_type r = s) (vectors d)))
          (remdups (map col_source_type (vectors d)))"
    by (simp add: group_by_source_type_def Let_def comp_def)
  then show ?thesis
    by (simp add: get_conversation_summary_def total_fold group_counts)
qed

lemma summary_duration:
  "duration (get_conversation_summary d) = Max (insert 0 (col_timestamp ` set (vectors d)))"
proof -
  let ?tags = "remdups (map col_source_type (vectors d))"
  let ?grp = "\<lambda>s. col_timestamp ` {r \<in> set (vectors d). col_source_type r = s}"
  have his: "map (\<lambda>g. snd (snd (snd g))) (group_by_source_type d) = map (\<lambda>s. Max (?grp s)) ?tags"
    by (simp add: group_by_source_type_def Let_def comp_def)
  have dur: "duration (get_conversation_summary d) = Max (insert 0 ((\<lambda>s. Max (?grp s)) ` set ?tags))"
    by (simp add: get_conversation_summary_def duration_fold fold_max_Max his)
  let ?A = "insert 0 ((\<lambda>s. Max (?grp s)) ` set ?tags)"
  let ?B = "insert 0 (col_timestamp ` set (vectors d))"
  have fin: "finite ?A" "finite ?B" by simp_all
  have "Max ?A \<le> Max ?B"
  proof (rule Max.boundedI [OF fin(1)])
    show "?A \<noteq> {}" by simp
    fix a assume "a \<in> ?A"
    then consider "a = 0" | s where "s \<in> set ?tags" and "a = Max (?grp s)" by auto
    then show "a \<le> Max ?B"
    proof cases
      case 1
      then show ?thesis by simp
    next
      case 2
      then have "?grp s \<noteq> {}" by auto
      then have "Max (?grp s) \<in> ?grp s" by (intro Max_in) simp
      then have "a \<in> ?B" using 2 by auto
      then show ?thesis by (intro Max_ge) simp_all
    qed
  qed
  moreover have "Max ?B \<le> Max ?A"
  proof (rule Max.boundedI [OF fin(2)])
    show "?B \<noteq> {}" by simp
    fix b assume "b \<in> ?B"
    then consider "b = 0" | r where "r \<in> set (vectors d)" and "b = col_timestamp r" by auto
    then show "b \<le> Max ?A"
    proof cases
      case 1
      then show ?thesis by simp
    next
      case 2
      then have "b \<le> Max (?grp (col_source_type r))" by (intro Max_ge) auto
      also have "\<dots> \<le> Max ?A" using 2 by (intro Max_ge) auto
      finally show ?thesis .
    qed
  qed
  ultimately have "Max ?A = Max ?B" by (rule antisym)
  then show ?thesis unfolding dur .
qed

text \<open>
  C6.  The summary is to report, for each source type, a duration equal to its
  greatest minus its least timestamp.  On the audio track that starts at second 0
  and has a second record at second 10, the summary reports the count 2, the least
  timestamp 0 and the greatest 10, and the duration 0 where the difference is 10:
  the test \<^verbatim>\<open>max_time and min_time\<close> takes the least timestamp 0 for a missing
  value.
\<close>

theorem summary_duration_lost_at_zero:
  "sources (get_conversation_summary zero_start_db) ''audio'' =
     Some \<lparr>row_count = 2, min_timestamp = 0, max_timestamp = 10, type_duration = 0\<rparr>"
  by (simp add: zero_start_db_def get_conversation_summary_def group_by_source_type_def
      add_group_def store_audio_vectors_def insert_row_def create_tables_def)

section \<open>Cosine similarity\<close>

lemma numbers_JNum [simp]: "numbers (map JNum a) = Some a"
  by (induction a) auto



lemma magnitude_zero_iff: "magnitude a = 0 \<longleftrightarrow> sumsq a = 0"
  by (simp add: magnitude_def)







lemma cosine_numeric:
  assumes "numbers vec1 \<noteq> None" and "numbers vec2 \<noteq> None"
  shows "\<exists>s. cosine_similarity vec1 vec2 = Inr s"
  using assms by (auto simp: cosine_similarity_def Let_def)





section \<open>Similar moments\<close>

lemma list_all2_right_witness:
  "list_all2 P xs ys \<Longrightarrow> y \<in> set ys \<Longrightarrow> \<exists>x \<in> set xs. P x y"
  by (induction rule: list_all2_induct) auto

lemma similarities_scored:
  "similarities ref t w rs = Inr ms \<Longrightarrow>
     list_all2 (scored ref) (filter (\<lambda>r. \<not> \<bar>timestamp r - t\<bar> < w) rs) ms"
proof (induction rs arbitrary: ms)
  case Nil
  then show ?case by simp
next
  case (Cons r rs)
  show ?case
  proof (cases "\<bar>timestamp r - t\<bar> < w")
    case True
    with Cons show ?thesis by simp
  next
    case False
    with Cons.prems obtain s ms' where s: "cosine_similarity ref (vector r) = Inr s"
      and ms': "similarities ref t w rs = Inr ms'"
      and ms: "ms = \<lparr>m_timestamp = timestamp r, similarity = s, m_metadata = metadata r\<rparr> # ms'"
      by (auto split: sum.splits)
    have "scored ref r \<lparr>m_timestamp = timestamp r, similarity = s, m_metadata = metadata r\<rparr>"
      by (simp add: scored_def s)
    then show ?thesis using False Cons.IH [OF ms'] by (simp add: ms)
  qed
qed

lemma similarities_numeric:
  assumes "numbers ref \<noteq> None" and "\<forall>r \<in> set rs. numbers (vector r) \<noteq> None"
  shows "\<exists>ms. similarities ref t w rs = Inr ms"
  using assms(2)
proof (induction rs)
  case Nil
  show ?case by simp
next
  case (Cons r rs)
  then obtain ms where "similarities ref t w rs = Inr ms" by auto
  moreover obtain s where "cosine_similarity ref (vector r) = Inr s"
    using cosine_numeric [OF assms(1)] Cons.prems by auto
  ultimately show ?case by simp
qed

lemma sort_by_similarity_stable: "stable_descending ms (sort_by_similarity ms)"
proof -
  have "sorted (map (\<lambda>m. - similarity m) (sort_by_similarity ms))"
    unfolding sort_by_similarity_def by (rule sorted_sort_key)
  then have "sorted_wrt (\<lambda>a b. similarity b \<le> similarity a) (sort_by_similarity ms)"
    by (simp add: sorted_map)
  moreover have "filter (\<lambda>m. similarity m = s) (sort_by_similarity ms) =
                 filter (\<lambda>m. similarity m = s) ms" for s
    using sort_key_stable [of "\<lambda>m. - similarity m" "- s" ms]
    by (simp add: sort_by_similarity_def)
  ultimately show ?thesis
    by (simp add: stable_descending_def) (simp add: sort_by_similarity_def)
qed

lemma numeric_query:
  assumes "numeric_store d" and "r \<in> set (query_by_timerange d start_time end_time st)"
  shows "numbers (vector r) \<noteq> None"
proof -
  from assms(2) obtain x where "x \<in> set (vectors d)" and "r = to_record x"
    unfolding set_query by blast
  with assms(1) show ?thesis by (simp add: numeric_store_def to_record_def)
qed

text \<open>
  C1 (as the code has it).  When no stored row that the filter lets through has its
  timestamp within 5 seconds of the target, \<^verbatim>\<open>find_similar_moments\<close> returns the
  empty list as a normal result; it raises no error.
\<close>

theorem find_similar_no_reference:
  assumes "\<forall>r \<in> set (vectors d).
             \<not> (t - 5 \<le> col_timestamp r \<and> col_timestamp r \<le> t + 5 \<and> selects st r)"
  shows "find_similar_moments d t w st = Inr []"
proof -
  have "set (query_by_timerange d (Fin (t - 5)) (Fin (t + 5)) st) = {}"
    using assms unfolding set_query by (auto simp: in_range_def)
  then show ?thesis by (simp add: find_similar_moments_def)
qed

text \<open>No record of the store with the tie lies within 5 seconds of second 100.\<close>

theorem find_similar_no_reference_witness:
  "list_all (\<lambda>r. \<not> (100 - 5 \<le> col_timestamp r \<and> col_timestamp r \<le> 100 + 5 \<and> selects None r))
     (vectors tie_db) \<and>
   find_similar_moments tie_db 100 30 None = Inr []"
proof -
  have none: "\<forall>r \<in> set (vectors tie_db).
      \<not> (100 - 5 \<le> col_timestamp r \<and> col_timestamp r \<le> 100 + 5 \<and> selects None r)"
    by (simp add: tie_db_def unordered_batch_def store_audio_vectors_def store_visual_vectors_def
        insert_row_def create_tables_def)
  show ?thesis
    using none find_similar_no_reference [OF none, of 30] by (simp add: list_all_iff)
qed

text \<open>
  On the scenario store no audio record lies between seconds 45 and 55, and the
  search around second 50 returns normally with the empty list.
\<close>

theorem find_similar_without_reference_returns:
  "find_similar_moments scenario_db 50 30 (Some ''audio'') = Inr []"
  by (simp add: scenario_db_def scenario_batch_def store_audio_vectors_def insert_row_def
      create_tables_def find_similar_moments_def query_by_timerange_def in_range_def)

text \<open>
  C4.  Let the range of 5 seconds around the target hold a record, the first of
  which is the reference.  Then on a store whose vectors are all numeric
  \<^verbatim>\<open>find_similar_moments\<close> returns a list, and whenever it returns a list \<open>res\<close>:
  no moment of \<open>res\<close> is closer to the target than \<open>window_size\<close>, so for a positive
  \<open>window_size\<close> none is at the target itself; \<open>res\<close> has at most 10 moments; and
  \<open>res\<close> is the first 10 of a ranking of the candidates, that is, of the records of
  the full query outside the window, scored against the reference and taken in the
  order of the query: the ranking descends in similarity and keeps candidates of
  equal similarity in that order.
\<close>

theorem find_similar_ranked:
  assumes ref: "query_by_timerange d (Fin (t - 5)) (Fin (t + 5)) st = ref # others"
  shows "(numeric_store d \<longrightarrow> (\<exists>res. find_similar_moments d t w st = Inr res)) \<and>
         (\<forall>res. find_similar_moments d t w st = Inr res \<longrightarrow>
            (\<forall>m \<in> set res. \<not> \<bar>m_timestamp m - t\<bar> < w) \<and>
            (0 < w \<longrightarrow> (\<forall>m \<in> set res. m_timestamp m \<noteq> t)) \<and>
            length res \<le> 10 \<and>
            (\<exists>cands full.
                list_all2 (scored (vector ref))
                  (filter (\<lambda>r. \<not> \<bar>timestamp r - t\<bar> < w) (query_by_timerange d (Fin 0) PosInf st))
                  cands \<and>
                stable_descending cands full \<and> res = take 10 full))"
proof (intro conjI impI allI)
  assume num: "numeric_store d"
  have "ref \<in> set (query_by_timerange d (Fin (t - 5)) (Fin (t + 5)) st)" by (simp add: ref)
  then have "numbers (vector ref) \<noteq> None" by (rule numeric_query [OF num])
  moreover have "\<forall>r \<in> set (query_by_timerange d (Fin 0) PosInf st). numbers (vector r) \<noteq> None"
    using numeric_query [OF num] by blast
  ultimately obtain ms where
    "similarities (vector ref) t w (query_by_timerange d (Fin 0) PosInf st) = Inr ms"
    using similarities_numeric by blast
  then show "\<exists>res. find_similar_moments d t w st = Inr res"
    by (simp add: find_similar_moments_def ref)
next
  fix res assume res: "find_similar_moments d t w st = Inr res"
  let ?all = "query_by_timerange d (Fin 0) PosInf st"
  let ?kept = "filter (\<lambda>r. \<not> \<bar>timestamp r - t\<bar> < w) ?all"
  from res obtain ms where ms: "similarities (vector ref) t w ?all = Inr ms"
    and take: "res = take 10 (sort_by_similarity ms)"
    by (auto simp: find_similar_moments_def ref split: sum.splits)
  have scored: "list_all2 (scored (vector ref)) ?kept ms" by (rule similarities_scored [OF ms])
  have stable: "stable_descending ms (sort_by_similarity ms)" by (rule sort_by_similarity_stable)
  show "\<exists>cands full. list_all2 (scored (vector ref)) ?kept cands \<and>
          stable_descending cands full \<and> res = take 10 full"
    using scored stable take by blast
  show "length res \<le> 10" by (simp add: take)
  have outside: "\<not> \<bar>m_timestamp m - t\<bar> < w" if "m \<in> set res" for m
  proof -
    have "m \<in> set (sort_by_similarity ms)" using that take by (auto dest: in_set_takeD)
    then have "m \<in> set ms" by (simp add: sort_by_similarity_def)
    then obtain r where "r \<in> set ?kept" and "scored (vector ref) r m"
      using list_all2_right_witness [OF scored] by blast
    then show ?thesis by (simp add: scored_def)
  qed
  then show "\<forall>m \<in> set res. \<not> \<bar>m_timestamp m - t\<bar> < w" by blast
  show "\<forall>m \<in> set res. m_timestamp m \<noteq> t" if "0 < w"
  proof
    fix m assume "m \<in> set res"
    then have "\<not> \<bar>m_timestamp m - t\<bar> < w" by (rule outside)
    with that show "m_timestamp m \<noteq> t" by auto
  qed
qed

text \<open>On the scenario store the search around second 10 with a window of 30
  seconds leaves out the records at 10 and 20 and returns the record at 80, whose
  vector is orthogonal to the reference, with similarity 0.\<close>

theorem find_similar_ranked_witness:
  "query_by_timerange scenario_db (Fin (10 - 5)) (Fin (10 + 5)) (Some ''audio'') =
     \<lparr>ident = 1, source_type = ''audio'', source_file = ''conversation_audio.wav'',
      timestamp = 10, vector = [JNum 1, JNum 0], metadata = JStr ''a''\<rparr> # [] \<and>
   numeric_store scenario_db \<and>
   find_similar_moments scenario_db 10 30 (Some ''audio'') =
     Inr [\<lparr>m_timestamp = 80, similarity = 0, m_metadata = JStr ''c''\<rparr>] \<and>
   list_all (\<lambda>m. \<not> \<bar>m_timestamp m - 10\<bar> < 30 \<and> m_timestamp m \<noteq> 10)
     [\<lparr>m_timestamp = 80, similarity = 0, m_metadata = JStr ''c''\<rparr>]"
proof -
  have ref: "query_by_timerange scenario_db (Fin (10 - 5)) (Fin (10 + 5)) (Some ''audio'') =
     \<lparr>ident = 1, source_type = ''audio'', source_file = ''conversation_audio.wav'',
      timestamp = 10, vector = [JNum 1, JNum 0], metadata = JStr ''a''\<rparr> # []"
    by (simp add: scenario_db_def scenario_batch_def store_audio_vectors_def insert_row_def
        create_tables_def query_by_timerange_def in_range_def to_record_def)
  have num: "numeric_store scenario_db"
    by (simp add: numeric_store_def scenario_db_def scenario_batch_def store_audio_vectors_def
        insert_row_def create_tables_def)
  have res: "find_similar_moments scenario_db 10 30 (Some ''audio'') =
     Inr [\<lparr>m_timestamp = 80, similarity = 0, m_metadata = JStr ''c''\<rparr>]"
    by (simp add: scenario_db_def scenario_batch_def store_audio_vectors_def insert_row_def
        create_tables_def find_similar_moments_def query_by_timerange_def in_range_def
        to_record_def cosine_similarity_def sort_by_similarity_def)
  show ?thesis
    using ref num res find_similar_ranked [OF ref, of 30] by simp
qed

end
